theory Spec2Isabelle
  imports Complex_Main "HOL-Library.Multiset"
begin

section \<open>MatrixUser of the Matrix-Telegram bridge (src/matrix-user.js)\<close>

text \<open>
  The class \<^verbatim>\<open>MatrixUser\<close> is embedded method by method. Its collaborators (the
  application object, the Telegram puppet, Telegram users, portals, the md5 and
  string-similarity libraries) are not part of the file; they are the fields of an
  environment record. A collaborator that is awaited, or called for its result, takes
  the state of the outside world and returns an outcome together with the next world; an
  outcome is either a returned value (\<open>Inr\<close>) or a thrown value (\<open>Inl\<close>, a rejected
  promise under \<^verbatim>\<open>await\<close>). Every collaborator call made by a method is also appended
  to a call log, so that statements such as "no persistence call is made" can be read off
  the log.
\<close>

subsection \<open>Values thrown in JavaScript\<close>

text \<open>
  A thrown value is an instance of \<^verbatim>\<open>Error\<close> (with its message), or a value that is
  not an \<^verbatim>\<open>Error\<close> and has a \<^verbatim>\<open>toPrintable\<close> method (its result is kept), or any
  other value (the result of its \<^verbatim>\<open>toString\<close> is kept). Collaborators are taken never
  to throw \<^verbatim>\<open>null\<close> or \<^verbatim>\<open>undefined\<close>.
\<close>

datatype thrown =
  JsError string
| Printable string
| Plain string

fun instanceof_Error :: "thrown \<Rightarrow> bool" where
  "instanceof_Error (JsError m) = True"
| "instanceof_Error (Printable p) = False"
| "instanceof_Error (Plain s) = False"

subsection \<open>Data\<close>

text \<open>A Telegram user object, as far as MatrixUser reads it.\<close>

record telegram_user =
  contact_id :: int
  firstName :: "string option"
  lastName :: "string option"
  username :: "string option"
  contact_phoneNumber :: "string option"

text \<open>One entry of \<^verbatim>\<open>contacts.users\<close> in the answer to contacts.getContacts.\<close>

record remote_user =
  ru_id :: int
  ru_first_name :: "string option"
  ru_last_name :: "string option"
  ru_username :: "string option"
  ru_phone :: "string option"

text \<open>The answer to contacts.getContacts: its tag \<^verbatim>\<open>_\<close> and its users.\<close>

record contacts_result =
  cr_tag :: string
  cr_users :: "remote_user list"

text \<open>
  One entry of \<^verbatim>\<open>dialogs.chats\<close>: its tag \<^verbatim>\<open>_\<close>, its id and whether its
  \<^verbatim>\<open>deactivated\<close> property is truthy.
\<close>

record dialog =
  dialog_tag :: string
  dialog_id :: int
  deactivated :: bool

record dialogs_result =
  chats :: "dialog list"

datatype telegram_peer = TelegramPeer string int

datatype puppet_data = PuppetData string

text \<open>Puppets and portals are objects of other classes: the model holds references.\<close>

type_synonym puppet = nat
type_synonym portal = nat

record sent_code =
  phone_code_hash :: "string option"
  sent_code_payload :: string

type_synonym auth_result = string

record matrix_user =
  userID :: string
  whitelisted :: bool
  phoneNumber :: "string option"
  phoneCodeHash :: "string option"
  commandStatus :: "string option"
  puppetData :: "puppet_data option"
  contacts :: "telegram_user list"
  priv_telegramPuppet :: "puppet option"

record entry_data =
  data_phoneNumber :: "string option"
  data_phoneCodeHash :: "string option"
  data_contactIDs :: "int list option"
  data_puppet :: "puppet_data option"

record entry =
  entry_type :: string
  entry_id :: string
  entry_data :: entry_data

subsection \<open>The call log and the run-time state\<close>

datatype call =
  CallFromSubentry string "puppet_data option"
| CallGetContacts puppet string
| CallGetDialogs puppet
| CallGetTelegramUser int
| CallUserUpdateInfo puppet telegram_user remote_user bool
| CallPutUser matrix_user
| NewTelegramPeer telegram_peer
| CallGetPortalByPeer telegram_peer
| CallPortalUpdateInfo puppet portal dialog
| CallCreateMatrixRoom puppet portal "string list"
| ConsoleError thrown
| ConsoleErrorStack thrown
| CallCheckPhone puppet string
| CallSendCode puppet string
| CallSignIn puppet string string string
| CallLogOut puppet


text \<open>
  The run-time state: the world of the collaborators, the call log, and the callbacks
  registered with \<^verbatim>\<open>setTimeout\<close> that have not run yet (each is the id list given to
  the \<^verbatim>\<open>contactIDs\<close> setter).
\<close>

record 'w rt =
  world :: 'w
  calls :: "call list"
  timers :: "int list option list"

type_synonym ('a, 'w) outcome = "(thrown + 'a) \<times> 'w"

text \<open>
  The collaborators, by the name the source calls them:
  \<^item> \<open>checkWhitelist\<close>, \<open>getTelegramUser\<close>, \<open>putUser\<close>, \<open>getPortalByPeer\<close> are
    methods of \<^verbatim>\<open>app\<close>; \<open>putUser\<close> receives the user and assigns none of its fields;
  \<^item> \<open>fromSubentry\<close>, \<open>toSubentry\<close>, \<open>checkPhone\<close>, \<open>sendCode\<close>, \<open>signIn\<close> and
    \<open>puppet_logOut\<close> (\<^verbatim>\<open>logOut\<close>) belong to the puppet, \<open>puppet_userID\<close> reads its
    \<^verbatim>\<open>userID\<close>, and \<open>client_getContacts\<close>, \<open>client_getDialogs\<close> are its \<^verbatim>\<open>client\<close>
    called with contacts.getContacts and messages.getDialogs; an answer carries its tag and
    its \<^verbatim>\<open>users\<close> or \<^verbatim>\<open>chats\<close> array;
  \<^item> \<open>user_updateInfo\<close> is \<^verbatim>\<open>updateInfo\<close> of a Telegram user and returns the user as
    updated (Telegram users are held by value); \<open>portal_updateInfo\<close> and
    \<open>createMatrixRoom\<close> are methods of a portal;
  \<^item> \<open>hash_of_ids ids\<close> is \<^verbatim>\<open>md5(ids.join(","))\<close>, \<open>compareTwoStrings\<close> is the
    function of the string-similarity library and \<open>getFirstAndLastName\<close> a method of a
    Telegram user. JavaScript numbers are real numbers in the model.
\<close>

record 'w env =
  checkWhitelist :: "string \<Rightarrow> bool"
  fromSubentry :: "string \<Rightarrow> puppet_data option \<Rightarrow> 'w \<Rightarrow> puppet \<times> 'w"
  toSubentry :: "puppet \<Rightarrow> 'w \<Rightarrow> puppet_data"
  puppet_userID :: "puppet \<Rightarrow> 'w \<Rightarrow> int option"
  hash_of_ids :: "int list \<Rightarrow> string"
  client_getContacts :: "puppet \<Rightarrow> string \<Rightarrow> 'w \<Rightarrow> (contacts_result, 'w) outcome"
  client_getDialogs :: "puppet \<Rightarrow> 'w \<Rightarrow> (dialogs_result, 'w) outcome"
  getTelegramUser :: "int \<Rightarrow> 'w \<Rightarrow> (telegram_user, 'w) outcome"
  user_updateInfo ::
    "puppet \<Rightarrow> telegram_user \<Rightarrow> remote_user \<Rightarrow> bool \<Rightarrow> 'w \<Rightarrow> (telegram_user, 'w) outcome"
  putUser :: "matrix_user \<Rightarrow> 'w \<Rightarrow> (unit, 'w) outcome"
  getPortalByPeer :: "telegram_peer \<Rightarrow> 'w \<Rightarrow> (portal, 'w) outcome"
  portal_updateInfo :: "puppet \<Rightarrow> portal \<Rightarrow> dialog \<Rightarrow> 'w \<Rightarrow> (bool, 'w) outcome"
  createMatrixRoom :: "puppet \<Rightarrow> portal \<Rightarrow> string list \<Rightarrow> 'w \<Rightarrow> (unit, 'w) outcome"
  checkPhone :: "puppet \<Rightarrow> string \<Rightarrow> 'w \<Rightarrow> (string, 'w) outcome"
  sendCode :: "puppet \<Rightarrow> string \<Rightarrow> 'w \<Rightarrow> (sent_code, 'w) outcome"
  signIn :: "puppet \<Rightarrow> string \<Rightarrow> string \<Rightarrow> string \<Rightarrow> 'w \<Rightarrow> (auth_result, 'w) outcome"
  puppet_logOut :: "puppet \<Rightarrow> 'w \<Rightarrow> (unit, 'w) outcome"
  compareTwoStrings :: "string \<Rightarrow> string \<Rightarrow> real"
  getFirstAndLastName :: "telegram_user \<Rightarrow> string"

text \<open>A collaborator call: the world moves on and the call is logged.\<close>

definition invoke :: "call \<Rightarrow> ('w \<Rightarrow> 'a \<times> 'w) \<Rightarrow> 'w rt \<Rightarrow> 'a \<times> 'w rt" where
  "invoke c f s = (case f (world s) of (r, w') \<Rightarrow> (r, s\<lparr>world := w', calls := calls s @ [c]\<rparr>))"

definition record_call :: "call \<Rightarrow> 'w rt \<Rightarrow> 'w rt" where
  "record_call c s = s\<lparr>calls := calls s @ [c]\<rparr>"

text \<open>Truthiness of an optional string (\<^verbatim>\<open>undefined\<close> and the empty string are falsy)
  and of an optional number (\<^verbatim>\<open>undefined\<close> and 0 are falsy).\<close>

definition truthy_str :: "string option \<Rightarrow> bool" where
  "truthy_str v = (case v of None \<Rightarrow> False | Some t \<Rightarrow> t \<noteq> [])"

definition truthy_num :: "int option \<Rightarrow> bool" where
  "truthy_num v = (case v of None \<Rightarrow> False | Some n \<Rightarrow> n \<noteq> 0)"

subsection \<open>searchContacts\<close>

record search_result =
  similarity :: real
  match :: real
  contact :: telegram_user

text \<open>\<^verbatim>\<open>Math.round\<close>: the nearest integer, a tie going up.\<close>

definition Math_round :: "real \<Rightarrow> real" where
  "Math_round x = of_int \<lfloor>x + 1 / 2\<rfloor>"

definition contact_similarity :: "'w env \<Rightarrow> string \<Rightarrow> telegram_user \<Rightarrow> real" where
  "contact_similarity env query c =
    (let displaynameSimilarity =
           (if truthy_str (firstName c) \<or> truthy_str (lastName c)
            then compareTwoStrings env query (getFirstAndLastName env c) else 0);
         usernameSimilarity =
           (case username c of
              None \<Rightarrow> 0
            | Some n \<Rightarrow> if n \<noteq> [] then compareTwoStrings env query n else 0);
         numberSimilarity =
           (case contact_phoneNumber c of
              None \<Rightarrow> 0
            | Some n \<Rightarrow> if n \<noteq> [] then compareTwoStrings env query n else 0)
     in max displaynameSimilarity (max usernameSimilarity numberSimilarity))"

fun searchContacts_loop :: "'w env \<Rightarrow> string \<Rightarrow> real \<Rightarrow> telegram_user list \<Rightarrow> search_result list" where
  "searchContacts_loop env query minSimilarity [] = []"
| "searchContacts_loop env query minSimilarity (c # cs) =
    (let sim = contact_similarity env query c
     in if sim \<ge> minSimilarity
        then \<lparr>similarity = sim, match = Math_round (sim * 1000) / 10, contact = c\<rparr>
               # searchContacts_loop env query minSimilarity cs
        else searchContacts_loop env query minSimilarity cs)"

text \<open>
  \<^verbatim>\<open>Array.prototype.sort\<close> with a comparator, as a stable insertion sort: \<open>x\<close> goes
  before the first element that the comparator does not put before it.
\<close>

fun js_insert :: "('a \<Rightarrow> 'a \<Rightarrow> real) \<Rightarrow> 'a \<Rightarrow> 'a list \<Rightarrow> 'a list" where
  "js_insert cmp x [] = [x]"
| "js_insert cmp x (y # ys) = (if cmp x y \<le> 0 then x # y # ys else y # js_insert cmp x ys)"

fun js_sort :: "('a \<Rightarrow> 'a \<Rightarrow> real) \<Rightarrow> 'a list \<Rightarrow> 'a list" where
  "js_sort cmp [] = []"
| "js_sort cmp (x # xs) = js_insert cmp x (js_sort cmp xs)"

text \<open>
  \<^verbatim>\<open>xs.slice(0, end)\<close> for an integer \<open>end\<close>: a negative \<open>end\<close> counts from the end
  of the array.
\<close>

definition js_slice0 :: "'a list \<Rightarrow> int \<Rightarrow> 'a list" where
  "js_slice0 xs end =
    (let len = int (length xs);
         k = (if end < 0 then max (len + end) 0 else min end len)
     in take (nat k) xs)"

definition by_similarity_desc :: "search_result \<Rightarrow> search_result \<Rightarrow> real" where
  "by_similarity_desc a b = similarity b - similarity a"

definition searchContacts ::
  "'w env \<Rightarrow> string \<Rightarrow> int \<Rightarrow> real \<Rightarrow> matrix_user \<Rightarrow> search_result list" where
  "searchContacts env query maxResults minSimilarity u =
    js_slice0 (js_sort by_similarity_desc (searchContacts_loop env query minSimilarity (contacts u)))
      maxResults"

text \<open>The defaults of the options object: \<^verbatim>\<open>{ maxResults = 5, minSimilarity = 0.45 }\<close>.\<close>

definition searchContacts_opts ::
  "'w env \<Rightarrow> string \<Rightarrow> int option \<Rightarrow> real option \<Rightarrow> matrix_user \<Rightarrow> search_result list" where
  "searchContacts_opts env query maxResults minSimilarity u =
    searchContacts env query
      (case maxResults of None \<Rightarrow> 5 | Some m \<Rightarrow> m)
      (case minSimilarity of None \<Rightarrow> 45 / 100 | Some m \<Rightarrow> m) u"

subsection \<open>The lazily created puppet, persistence and the contact id list\<close>

text \<open>
  The getter \<^verbatim>\<open>telegramPuppet\<close> creates the puppet from \<^verbatim>\<open>puppetData || {}\<close> on
  first access and stores it in \<^verbatim>\<open>_telegramPuppet\<close>.
\<close>

definition telegramPuppet :: "'w env \<Rightarrow> matrix_user \<Rightarrow> 'w rt \<Rightarrow> puppet \<times> matrix_user \<times> 'w rt" where
  "telegramPuppet env u s =
    (case priv_telegramPuppet u of
       Some p \<Rightarrow> (p, u, s)
     | None \<Rightarrow>
         (case invoke (CallFromSubentry (userID u) (puppetData u))
                 (fromSubentry env (userID u) (puppetData u)) s of
            (p, s') \<Rightarrow> (p, u\<lparr>priv_telegramPuppet := Some p\<rparr>, s')))"

text \<open>\<^verbatim>\<open>save\<close> hands the user to \<^verbatim>\<open>app.putUser\<close>; the log keeps the user as handed over.\<close>

definition save :: "'w env \<Rightarrow> matrix_user \<Rightarrow> 'w rt \<Rightarrow> (thrown + unit) \<times> 'w rt" where
  "save env u s = invoke (CallPutUser u) (putUser env u) s"

definition contactIDs :: "matrix_user \<Rightarrow> int list" where
  "contactIDs u = map contact_id (contacts u)"

text \<open>
  The setter of \<^verbatim>\<open>contactIDs\<close> only registers a callback with \<^verbatim>\<open>setTimeout\<close> and
  returns; the user is not touched.
\<close>

definition set_contactIDs :: "int list option \<Rightarrow> matrix_user \<Rightarrow> 'w rt \<Rightarrow> matrix_user \<times> 'w rt" where
  "set_contactIDs list u s = (u, s\<lparr>timers := timers s @ [list]\<rparr>)"

text \<open>
  \<^verbatim>\<open>Promise.all(list.map(id => app.getTelegramUser(id)))\<close>: every call is made, in
  the order of the list; the promise is rejected with the first thrown value.
\<close>

fun getTelegramUser_all :: "'w env \<Rightarrow> int list \<Rightarrow> 'w rt \<Rightarrow> (thrown + telegram_user list) \<times> 'w rt" where
  "getTelegramUser_all env [] s = (Inr [], s)"
| "getTelegramUser_all env (i # ids) s =
    (case invoke (CallGetTelegramUser i) (getTelegramUser env i) s of
       (r, s1) \<Rightarrow>
         (case getTelegramUser_all env ids s1 of
            (rs, s2) \<Rightarrow>
              (case r of
                 Inl e \<Rightarrow> (Inl e, s2)
               | Inr tu \<Rightarrow>
                   (case rs of
                      Inl e \<Rightarrow> (Inl e, s2)
                    | Inr tus \<Rightarrow> (Inr (tu # tus), s2)))))"

text \<open>
  The event loop running the oldest pending callback of the setter. A falsy list does
  nothing; a rejection inside the callback is handled by nobody and leaves
  \<^verbatim>\<open>contacts\<close> as it was.
\<close>

definition run_timer :: "'w env \<Rightarrow> matrix_user \<Rightarrow> 'w rt \<Rightarrow> matrix_user \<times> 'w rt" where
  "run_timer env u s =
    (case timers s of
       [] \<Rightarrow> (u, s)
     | list # pending \<Rightarrow>
         (case list of
            None \<Rightarrow> (u, s\<lparr>timers := pending\<rparr>)
          | Some ids \<Rightarrow>
              (case getTelegramUser_all env ids (s\<lparr>timers := pending\<rparr>) of
                 (Inl e, s1) \<Rightarrow> (u, s1)
               | (Inr tus, s1) \<Rightarrow> (u\<lparr>contacts := tus\<rparr>, s1))))"

subsection \<open>fromEntry and toEntry\<close>

definition new_MatrixUser :: "'w env \<Rightarrow> string \<Rightarrow> matrix_user" where
  "new_MatrixUser env uid =
    \<lparr>userID = uid, whitelisted = checkWhitelist env uid, phoneNumber = None,
     phoneCodeHash = None, commandStatus = None, puppetData = None, contacts = [],
     priv_telegramPuppet = None\<rparr>"

definition wrong_entry_type :: thrown where
  "wrong_entry_type =
    JsError (''MatrixUser can only be created from entry type '' @ [CHR 0x22] @ ''matrix'' @ [CHR 0x22])"

definition fromEntry :: "'w env \<Rightarrow> entry \<Rightarrow> 'w rt \<Rightarrow> (thrown + matrix_user) \<times> 'w rt" where
  "fromEntry env e s =
    (if entry_type e \<noteq> ''matrix'' then (Inl wrong_entry_type, s)
     else
       (let user = new_MatrixUser env (entry_id e);
            user = user\<lparr>phoneNumber := data_phoneNumber (entry_data e)\<rparr>;
            user = user\<lparr>phoneCodeHash := data_phoneCodeHash (entry_data e)\<rparr>
        in case set_contactIDs (data_contactIDs (entry_data e)) user s of
             (user, s1) \<Rightarrow>
               (case data_puppet (entry_data e) of
                  None \<Rightarrow> (Inr user, s1)
                | Some pd \<Rightarrow>
                    (case telegramPuppet env (user\<lparr>puppetData := Some pd\<rparr>) s1 of
                       (p, user', s2) \<Rightarrow> (Inr user', s2)))))"

definition toEntry :: "'w env \<Rightarrow> matrix_user \<Rightarrow> 'w rt \<Rightarrow> entry \<times> matrix_user" where
  "toEntry env u s =
    (let u' = (case priv_telegramPuppet u of
                 None \<Rightarrow> u
               | Some p \<Rightarrow> u\<lparr>puppetData := Some (toSubentry env p (world s))\<rparr>)
     in (\<lparr>entry_type = ''matrix'', entry_id = userID u',
          entry_data = \<lparr>data_phoneNumber = phoneNumber u',
                        data_phoneCodeHash = phoneCodeHash u',
                        data_contactIDs = Some (contactIDs u'),
                        data_puppet = puppetData u'\<rparr>\<rparr>, u'))"

subsection \<open>parseTelegramError\<close>

text \<open>
  \<^verbatim>\<open>parseTelegramError\<close> never returns: it throws its argument when that is an
  \<^verbatim>\<open>Error\<close>, and a new \<^verbatim>\<open>Error\<close> with the printable message otherwise. The model
  returns the value thrown.
\<close>

fun printable_message :: "thrown \<Rightarrow> string" where
  "printable_message (JsError m) = ''Error: '' @ m"
| "printable_message (Printable p) = p"
| "printable_message (Plain s) = s"

definition parseTelegramError :: "thrown \<Rightarrow> thrown" where
  "parseTelegramError err =
    (let message = printable_message err
     in if instanceof_Error err then err else JsError message)"

subsection \<open>syncContacts\<close>



subsection \<open>syncDialogs\<close>

definition skipped :: "dialog \<Rightarrow> bool" where
  "skipped d = (dialog_tag d = ''chatForbidden'' \<or> deactivated d)"

text \<open>The catch block: \<^verbatim>\<open>console.error(err)\<close>, then \<^verbatim>\<open>console.error(err.stack)\<close>.\<close>

definition console_errors :: "thrown \<Rightarrow> 'w rt \<Rightarrow> 'w rt" where
  "console_errors err s = record_call (ConsoleErrorStack err) (record_call (ConsoleError err) s)"

fun syncDialogs_loop ::
  "'w env \<Rightarrow> puppet \<Rightarrow> string \<Rightarrow> bool \<Rightarrow> dialog list \<Rightarrow> bool \<Rightarrow> 'w rt \<Rightarrow> (thrown + bool) \<times> 'w rt" where
  "syncDialogs_loop env p uid createRooms [] changed s = (Inr changed, s)"
| "syncDialogs_loop env p uid createRooms (d # ds) changed s =
    (if skipped d then syncDialogs_loop env p uid createRooms ds changed s
     else
       (let peer = TelegramPeer (dialog_tag d) (dialog_id d);
            s0 = record_call (NewTelegramPeer peer) s
        in case invoke (CallGetPortalByPeer peer) (getPortalByPeer env peer) s0 of
             (Inl e, s1) \<Rightarrow> (Inl e, s1)
           | (Inr portal, s1) \<Rightarrow>
               (case invoke (CallPortalUpdateInfo p portal d) (portal_updateInfo env p portal d) s1 of
                  (Inl e, s2) \<Rightarrow> (Inl e, s2)
                | (Inr updated, s2) \<Rightarrow>
                    (let changed' = (if updated then True else changed)
                     in if createRooms
                        then
                          (case invoke (CallCreateMatrixRoom p portal [uid])
                                  (createMatrixRoom env p portal [uid]) s2 of
                             (Inl err, s3) \<Rightarrow>
                               syncDialogs_loop env p uid createRooms ds changed' (console_errors err s3)
                           | (Inr room, s3) \<Rightarrow>
                               syncDialogs_loop env p uid createRooms ds changed' s3)
                        else syncDialogs_loop env p uid createRooms ds changed' s2))))"

definition syncDialogs ::
  "'w env \<Rightarrow> bool \<Rightarrow> matrix_user \<Rightarrow> 'w rt \<Rightarrow> (thrown + bool) \<times> matrix_user \<times> 'w rt" where
  "syncDialogs env createRooms u s =
    (case telegramPuppet env u s of
       (p, u1, s1) \<Rightarrow>
         (case invoke (CallGetDialogs p) (client_getDialogs env p) s1 of
            (Inl e, s2) \<Rightarrow> (Inl e, u1, s2)
          | (Inr dialogs, s2) \<Rightarrow>
              (case syncDialogs_loop env p (userID u1) createRooms (chats dialogs) False s2 of
                 (r, s3) \<Rightarrow> (r, u1, s3))))"

text \<open>The default of the options object: \<^verbatim>\<open>{ createRooms = true }\<close>.\<close>

definition syncDialogs_opts ::
  "'w env \<Rightarrow> bool option \<Rightarrow> matrix_user \<Rightarrow> 'w rt \<Rightarrow> (thrown + bool) \<times> matrix_user \<times> 'w rt" where
  "syncDialogs_opts env createRooms u s =
    syncDialogs env (case createRooms of None \<Rightarrow> True | Some b \<Rightarrow> b) u s"

subsection \<open>sendTelegramCode, logOutFromTelegram, signInToTelegram\<close>

definition already_logged_in :: thrown where
  "already_logged_in = JsError ''You are already logged in. Please log out before logging in again.''"

definition authenticated :: "'w env \<Rightarrow> matrix_user \<Rightarrow> 'w rt \<Rightarrow> bool" where
  "authenticated env u s =
    (case priv_telegramPuppet u of
       None \<Rightarrow> False
     | Some p \<Rightarrow> truthy_num (puppet_userID env p (world s)))"

definition sendTelegramCode ::
  "'w env \<Rightarrow> string \<Rightarrow> matrix_user \<Rightarrow> 'w rt \<Rightarrow> (thrown + sent_code) \<times> matrix_user \<times> 'w rt" where
  "sendTelegramCode env phone u s =
    (if authenticated env u s then (Inl already_logged_in, u, s)
     else
       (case telegramPuppet env u s of
          (p, u1, s1) \<Rightarrow>
            (case invoke (CallCheckPhone p phone) (checkPhone env p phone) s1 of
               (Inl e, s2) \<Rightarrow> (Inl e, u1, s2)
             | (Inr status, s2) \<Rightarrow>
                 if status = ''unregistered''
                 then (Inl (JsError ''That number has not been registered. Please register it first.''),
                       u1, s2)
                 else if status = ''invalid'' then (Inl (JsError ''Invalid phone number.''), u1, s2)
                 else
                   (case invoke (CallSendCode p phone) (sendCode env p phone) s2 of
                      (Inl err, s3) \<Rightarrow> (Inl (parseTelegramError err), u1, s3)
                    | (Inr result, s3) \<Rightarrow>
                        (let u2 = u1\<lparr>phoneNumber := Some phone,
                                     phoneCodeHash := phone_code_hash result\<rparr>
                         in case save env u2 s3 of
                              (Inl err, s4) \<Rightarrow> (Inl (parseTelegramError err), u2, s4)
                            | (Inr saved, s4) \<Rightarrow> (Inr result, u2, s4))))))"

text \<open>
  \<^verbatim>\<open>logOutFromTelegram\<close> calls the puppet's \<^verbatim>\<open>logOut\<close> without awaiting it: the
  call is made and whatever it settles to is dropped.
\<close>

definition logOutFromTelegram ::
  "'w env \<Rightarrow> matrix_user \<Rightarrow> 'w rt \<Rightarrow> (thrown + bool) \<times> matrix_user \<times> 'w rt" where
  "logOutFromTelegram env u s =
    (case telegramPuppet env u s of
       (p, u1, s1) \<Rightarrow>
         (case invoke (CallLogOut p) (puppet_logOut env p) s1 of
            (dropped, s2) \<Rightarrow>
              (let u2 = u1\<lparr>priv_telegramPuppet := None\<rparr>;
                   u3 = u2\<lparr>puppetData := None\<rparr>
               in case save env u3 s2 of
                    (Inl e, s3) \<Rightarrow> (Inl e, u3, s3)
                  | (Inr saved, s3) \<Rightarrow> (Inr True, u3, s3))))"

definition signInToTelegram ::
  "'w env \<Rightarrow> string \<Rightarrow> matrix_user \<Rightarrow> 'w rt \<Rightarrow> (thrown + auth_result) \<times> matrix_user \<times> 'w rt" where
  "signInToTelegram env phoneCode u s =
    (case phoneNumber u of
       None \<Rightarrow> (Inl (JsError ''Phone number not set''), u, s)
     | Some number \<Rightarrow>
         if number = [] then (Inl (JsError ''Phone number not set''), u, s)
         else
           (case phoneCodeHash u of
              None \<Rightarrow> (Inl (JsError ''Phone code not sent''), u, s)
            | Some hash \<Rightarrow>
                if hash = [] then (Inl (JsError ''Phone code not sent''), u, s)
                else
                  (case telegramPuppet env u s of
                     (p, u1, s1) \<Rightarrow>
                       (case invoke (CallSignIn p number hash phoneCode)
                               (signIn env p number hash phoneCode) s1 of
                          (Inl e, s2) \<Rightarrow> (Inl e, u1, s2)
                        | (Inr result, s2) \<Rightarrow>
                            (let u2 = u1\<lparr>phoneCodeHash := None\<rparr>
                             in case save env u2 s2 of
                                  (Inl e, s3) \<Rightarrow> (Inl e, u2, s3)
                                | (Inr saved, s3) \<Rightarrow> (Inr result, u2, s3))))))"

subsection \<open>Properties used in the statements\<close>


subsection \<open>A concrete environment for evaluation\<close>

text \<open>
  The world is a counter that every collaborator call with an effect advances. In
  \<open>demo_env\<close> every collaborator succeeds; the remote account has two contacts and four
  conversations; two strings are as similar as 1 when equal and 0 otherwise.
\<close>

definition alice :: telegram_user where
  "alice = \<lparr>contact_id = 1, firstName = None, lastName = None, username = Some ''alice'',
            contact_phoneNumber = None\<rparr>"

definition bob :: telegram_user where
  "bob = \<lparr>contact_id = 2, firstName = None, lastName = None, username = None,
          contact_phoneNumber = Some ''5551234''\<rparr>"


definition remote_alice :: remote_user where
  "remote_alice = \<lparr>ru_id = 1, ru_first_name = None, ru_last_name = None,
                   ru_username = Some ''alice'', ru_phone = None\<rparr>"

definition remote_bob :: remote_user where
  "remote_bob = \<lparr>ru_id = 2, ru_first_name = None, ru_last_name = None, ru_username = None,
                 ru_phone = Some ''5551234''\<rparr>"

definition demo_dialogs :: "dialog list" where
  "demo_dialogs =
    [\<lparr>dialog_tag = ''chat'', dialog_id = 10, deactivated = False\<rparr>,
     \<lparr>dialog_tag = ''chatForbidden'', dialog_id = 11, deactivated = False\<rparr>,
     \<lparr>dialog_tag = ''chat'', dialog_id = 12, deactivated = True\<rparr>,
     \<lparr>dialog_tag = ''channel'', dialog_id = 13, deactivated = False\<rparr>]"

definition demo_env :: "nat env" where
  "demo_env =
    \<lparr>checkWhitelist = (\<lambda>uid. True),
     fromSubentry = (\<lambda>uid pd w. (7, Suc w)),
     toSubentry = (\<lambda>p w. PuppetData ''session''),
     puppet_userID = (\<lambda>p w. None),
     hash_of_ids = (\<lambda>ids. ''d41d8cd9''),
     client_getContacts =
       (\<lambda>p h w. (Inr \<lparr>cr_tag = ''contacts.contacts'', cr_users = [remote_alice, remote_bob]\<rparr>,
                  Suc w)),
     client_getDialogs = (\<lambda>p w. (Inr \<lparr>chats = demo_dialogs\<rparr>, Suc w)),
     getTelegramUser =
       (\<lambda>i w. (Inr \<lparr>contact_id = i, firstName = None, lastName = None, username = None,
                      contact_phoneNumber = None\<rparr>, Suc w)),
     user_updateInfo =
       (\<lambda>p tu c force w.
          (Inr (tu\<lparr>firstName := ru_first_name c, lastName := ru_last_name c,
                   username := ru_username c, contact_phoneNumber := ru_phone c\<rparr>), Suc w)),
     putUser = (\<lambda>u w. (Inr (), Suc w)),
     getPortalByPeer = (\<lambda>peer w. (Inr (case peer of TelegramPeer t i \<Rightarrow> nat i), Suc w)),
     portal_updateInfo = (\<lambda>p portal d w. (Inr (dialog_id d = 13), Suc w)),
     createMatrixRoom = (\<lambda>p portal invite w. (Inr (), Suc w)),
     checkPhone = (\<lambda>p n w. (Inr ''registered'', Suc w)),
     sendCode = (\<lambda>p n w. (Inr \<lparr>phone_code_hash = Some ''c0de'', sent_code_payload = ''sms''\<rparr>, Suc w)),
     signIn = (\<lambda>p n h c w. (Inr ''authorization'', Suc w)),
     puppet_logOut = (\<lambda>p w. (Inr (), Suc w)),
     compareTwoStrings = (\<lambda>a b. if a = b then 1 else 0),
     getFirstAndLastName =
       (\<lambda>c. (case firstName c of None \<Rightarrow> [] | Some f \<Rightarrow> f) @ '' ''
             @ (case lastName c of None \<Rightarrow> [] | Some l \<Rightarrow> l))\<rparr>"

definition demo_user :: matrix_user where
  "demo_user =
    \<lparr>userID = ''@user:example.org'', whitelisted = True, phoneNumber = None,
     phoneCodeHash = None, commandStatus = None, puppetData = None, contacts = [alice, bob],
     priv_telegramPuppet = None\<rparr>"

definition demo_rt :: "nat rt" where
  "demo_rt = \<lparr>world = 0, calls = [], timers = []\<rparr>"

subsection \<open>Reading a method's outcome\<close>

text \<open>A method returns what it returned or threw, the user after it, and the run-time
  state after it.\<close>

definition result_of :: "'a \<times> matrix_user \<times> 'w rt \<Rightarrow> 'a" where
  "result_of x = fst x"

definition user_of :: "'a \<times> matrix_user \<times> 'w rt \<Rightarrow> matrix_user" where
  "user_of x = fst (snd x)"

definition rt_of :: "'a \<times> matrix_user \<times> 'w rt \<Rightarrow> 'w rt" where
  "rt_of x = snd (snd x)"

text \<open>The users handed to \<^verbatim>\<open>app.putUser\<close>, in the order of the calls.\<close>

fun persisted :: "call list \<Rightarrow> matrix_user list" where
  "persisted [] = []"
| "persisted (CallPutUser u # cs) = u # persisted cs"
| "persisted (c # cs) = persisted cs"


text \<open>The environment whose conversation list has lost the skipped conversations.\<close>

definition without_skipped :: "'w env \<Rightarrow> 'w env" where
  "without_skipped env =
    env\<lparr>client_getDialogs :=
          (\<lambda>p w. case client_getDialogs env p w of
                    (Inl e, w') \<Rightarrow> (Inl e, w')
                  | (Inr dialogs, w') \<Rightarrow>
                      (Inr (dialogs\<lparr>chats := filter (\<lambda>d. \<not> skipped d) (chats dialogs)\<rparr>), w'))\<rparr>"



text \<open>Variants of the concrete environment and user.\<close>

definition demo_user_live :: matrix_user where
  "demo_user_live = demo_user\<lparr>priv_telegramPuppet := Some 7\<rparr>"

definition demo_user_code_sent :: matrix_user where
  "demo_user_code_sent = demo_user\<lparr>phoneNumber := Some ''+15550100'', phoneCodeHash := Some ''c0de''\<rparr>"

definition env_authenticated :: "nat env" where
  "env_authenticated = demo_env\<lparr>puppet_userID := (\<lambda>p w. Some 42)\<rparr>"



definition env_signIn_fails :: "nat env" where
  "env_signIn_fails =
    demo_env\<lparr>signIn := (\<lambda>p n h c w. (Inl (Printable ''[400] PHONE_CODE_INVALID''), Suc w))\<rparr>"



definition demo_entry :: entry where
  "demo_entry =
    \<lparr>entry_type = ''matrix'', entry_id = ''@user:example.org'',
     entry_data = \<lparr>data_phoneNumber = None, data_phoneCodeHash = None,
                   data_contactIDs = Some [1, 2], data_puppet = None\<rparr>\<rparr>"


section \<open>Verification\<close>

subsection \<open>Sorting and slicing\<close>










subsection \<open>searchContacts\<close>







subsection \<open>Calls, the puppet getter and persistence\<close>

lemma persisted_append: "persisted (xs @ ys) = persisted xs @ persisted ys"
  by (induction xs rule: persisted.induct) auto


lemma telegramPuppet_result:
  assumes "telegramPuppet env u s = (p, u1, s1)"
  shows "u1 = u\<lparr>priv_telegramPuppet := Some p\<rparr>"
    and "persisted (calls s1) = persisted (calls s)"
    and "timers s1 = timers s"
  using assms
  by (auto simp: telegramPuppet_def invoke_def persisted_append split: option.splits prod.splits)

lemma save_eq:
  "putUser env u (world s) = (r, w) \<Longrightarrow>
     save env u s = (r, s\<lparr>world := w, calls := calls s @ [CallPutUser u]\<rparr>)"
  by (simp add: save_def invoke_def)

subsection \<open>sendTelegramCode when already authenticated\<close>

text \<open>
  Claim C5. When the user holds a live puppet whose \<^verbatim>\<open>userID\<close> is truthy,
  \<^verbatim>\<open>sendTelegramCode\<close> throws the error "You are already logged in. Please log out
  before logging in again." and leaves the user, the world and the call log as they were:
  no collaborator is called and nothing is assigned.
\<close>

theorem sendTelegramCode_already_authenticated:
  assumes "priv_telegramPuppet u = Some p"
      and "truthy_num (puppet_userID env p (world s))"
  shows "sendTelegramCode env phone u s = (Inl already_logged_in, u, s)"
  using assms by (simp add: sendTelegramCode_def authenticated_def)

theorem sendTelegramCode_already_authenticated_witness:
  "sendTelegramCode env_authenticated ''+15550100'' demo_user_live demo_rt
     = (Inl (JsError ''You are already logged in. Please log out before logging in again.''),
        demo_user_live, demo_rt)
   \<and> calls demo_rt = [] \<and> priv_telegramPuppet demo_user_live = Some 7
   \<and> truthy_num (puppet_userID env_authenticated 7 (world demo_rt))"
proof -
  have live: "priv_telegramPuppet demo_user_live = Some 7"
    by (simp add: demo_user_live_def)
  have auth: "truthy_num (puppet_userID env_authenticated 7 (world demo_rt))"
    by (simp add: env_authenticated_def truthy_num_def)
  show ?thesis
    using sendTelegramCode_already_authenticated [OF live auth, of "''+15550100''"] live auth
    by (simp add: already_logged_in_def demo_rt_def)
qed

subsection \<open>fromEntry after toEntry\<close>

text \<open>
  Claim C10. The entry made by \<^verbatim>\<open>toEntry\<close> has type "matrix"; \<^verbatim>\<open>fromEntry\<close>
  accepts it and returns a user with the same \<^verbatim>\<open>userID\<close>, \<^verbatim>\<open>phoneNumber\<close> and
  \<^verbatim>\<open>phoneCodeHash\<close>. For any entry, \<^verbatim>\<open>fromEntry\<close> throws the wrong-entry-type
  error exactly when the type of the entry is not "matrix", and returns a user exactly
  when it is.
\<close>

theorem fromEntry_toEntry:
  "entry_type (fst (toEntry env u s)) = ''matrix''
   \<and> (\<exists>u' s''. fromEntry env (fst (toEntry env u s)) s' = (Inr u', s'')
         \<and> userID u' = userID u \<and> phoneNumber u' = phoneNumber u
         \<and> phoneCodeHash u' = phoneCodeHash u)
   \<and> ((fst (fromEntry env e s') = Inl wrong_entry_type) = (entry_type e \<noteq> ''matrix''))
   \<and> ((\<exists>u'. fst (fromEntry env e s') = Inr u') = (entry_type e = ''matrix''))"
  by (auto simp: fromEntry_def toEntry_def Let_def new_MatrixUser_def set_contactIDs_def
      telegramPuppet_def invoke_def split: option.splits prod.splits)

subsection \<open>The contactIDs setter\<close>

text \<open>
  Claim C9, evaluated on the code. Assigning the id list \<open>[1, 2]\<close> returns with
  \<^verbatim>\<open>contacts\<close> still empty and the resolution waiting among the timers; so does
  \<^verbatim>\<open>fromEntry\<close> on an entry that carries these ids, and a \<^verbatim>\<open>toEntry\<close> made
  before the timer runs writes an empty id list. Only the later run of the timer callback
  assigns the resolved contacts.
\<close>

theorem contactIDs_setter_detached:
  "contactIDs (fst (set_contactIDs (Some [1, 2]) (demo_user\<lparr>contacts := []\<rparr>) demo_rt)) = []
   \<and> timers (snd (set_contactIDs (Some [1, 2]) (demo_user\<lparr>contacts := []\<rparr>) demo_rt)) = [Some [1, 2]]
   \<and> fromEntry demo_env demo_entry demo_rt
       = (Inr (demo_user\<lparr>contacts := []\<rparr>), demo_rt\<lparr>timers := [Some [1, 2]]\<rparr>)
   \<and> data_contactIDs (entry_data demo_entry) = Some [1, 2]
   \<and> data_contactIDs (entry_data (fst (toEntry demo_env (demo_user\<lparr>contacts := []\<rparr>)
        (demo_rt\<lparr>timers := [Some [1, 2]]\<rparr>)))) = Some []
   \<and> contactIDs (fst (run_timer demo_env (demo_user\<lparr>contacts := []\<rparr>)
        (demo_rt\<lparr>timers := [Some [1, 2]]\<rparr>))) = [1, 2]"
  by (simp add: set_contactIDs_def contactIDs_def demo_user_def demo_rt_def fromEntry_def
      demo_entry_def demo_env_def new_MatrixUser_def toEntry_def run_timer_def invoke_def Let_def)

subsection \<open>signInToTelegram\<close>

text \<open>
  Claim C4, as amended. With \<^verbatim>\<open>phoneNumber\<close> and \<^verbatim>\<open>phoneCodeHash\<close> set: when the
  puppet's \<^verbatim>\<open>signIn\<close> returns a result, \<^verbatim>\<open>signInToTelegram\<close> clears
  \<^verbatim>\<open>phoneCodeHash\<close>, hands the user with the cleared hash to \<^verbatim>\<open>putUser\<close> and
  returns that result (or throws what \<^verbatim>\<open>putUser\<close> threw); when \<^verbatim>\<open>signIn\<close> throws,
  the thrown value reaches the caller, \<^verbatim>\<open>phoneCodeHash\<close> keeps its value and
  \<^verbatim>\<open>putUser\<close> is not called.
\<close>

theorem signInToTelegram_outcomes:
  assumes "phoneNumber u = Some number" and "number \<noteq> []"
      and "phoneCodeHash u = Some hash" and "hash \<noteq> []"
      and "telegramPuppet env u s = (p, u1, s1)"
      and "signIn env p number hash code (world s1) = (r, w)"
  shows "(\<forall>result. r = Inr result \<longrightarrow>
            user_of (signInToTelegram env code u s) = u1\<lparr>phoneCodeHash := None\<rparr>
            \<and> phoneCodeHash (user_of (signInToTelegram env code u s)) = None
            \<and> persisted (calls (rt_of (signInToTelegram env code u s)))
                = persisted (calls s) @ [u1\<lparr>phoneCodeHash := None\<rparr>]
            \<and> result_of (signInToTelegram env code u s)
                = (case fst (putUser env (u1\<lparr>phoneCodeHash := None\<rparr>) w) of
                     Inl e \<Rightarrow> Inl e
                   | Inr saved \<Rightarrow> Inr result))
       \<and> (\<forall>e. r = Inl e \<longrightarrow>
            result_of (signInToTelegram env code u s) = Inl e
            \<and> user_of (signInToTelegram env code u s) = u1
            \<and> phoneCodeHash (user_of (signInToTelegram env code u s)) = Some hash
            \<and> persisted (calls (rt_of (signInToTelegram env code u s))) = persisted (calls s))"
proof -
  have u1: "u1 = u\<lparr>priv_telegramPuppet := Some p\<rparr>"
    and p1: "persisted (calls s1) = persisted (calls s)"
    using telegramPuppet_result [OF assms(5)] by simp_all
  have call: "invoke (CallSignIn p number hash code) (signIn env p number hash code) s1
      = (r, s1\<lparr>world := w, calls := calls s1 @ [CallSignIn p number hash code]\<rparr>)"
    using assms(6) by (simp add: invoke_def)
  show ?thesis
  proof (cases r)
    case (Inl e)
    then show ?thesis
      using assms(1-5) call u1 p1
      by (simp add: signInToTelegram_def result_of_def user_of_def rt_of_def persisted_append)
  next
    case (Inr result)
    obtain r' w' where put: "putUser env (u1\<lparr>phoneCodeHash := None\<rparr>) w = (r', w')"
      by (cases "putUser env (u1\<lparr>phoneCodeHash := None\<rparr>) w")
    have sv: "save env (u1\<lparr>phoneCodeHash := None\<rparr>)
          (s1\<lparr>world := w, calls := calls s1 @ [CallSignIn p number hash code]\<rparr>)
        = (r', s1\<lparr>world := w', calls := calls s1 @ [CallSignIn p number hash code]
                                      @ [CallPutUser (u1\<lparr>phoneCodeHash := None\<rparr>)]\<rparr>)"
      using save_eq [of env "u1\<lparr>phoneCodeHash := None\<rparr>"
          "s1\<lparr>world := w, calls := calls s1 @ [CallSignIn p number hash code]\<rparr>" r' w'] put
      by simp
    show ?thesis
      using Inr assms(1-5) call p1 put sv
      by (cases r')
        (simp_all add: signInToTelegram_def result_of_def user_of_def rt_of_def persisted_append
          Let_def)
  qed
qed

theorem signInToTelegram_outcomes_witness:
  "phoneNumber demo_user_code_sent = Some ''+15550100''
   \<and> phoneCodeHash demo_user_code_sent = Some ''c0de''
   \<and> telegramPuppet demo_env demo_user_code_sent demo_rt
       = (7, demo_user_code_sent\<lparr>priv_telegramPuppet := Some 7\<rparr>,
          \<lparr>world = 1, calls = [CallFromSubentry ''@user:example.org'' None], timers = []\<rparr>)
   \<and> signIn demo_env 7 ''+15550100'' ''c0de'' ''12345'' 1 = (Inr ''authorization'', 2)
   \<and> result_of (signInToTelegram demo_env ''12345'' demo_user_code_sent demo_rt)
       = Inr ''authorization''
   \<and> phoneCodeHash (user_of (signInToTelegram demo_env ''12345'' demo_user_code_sent demo_rt)) = None
   \<and> persisted (calls (rt_of (signInToTelegram demo_env ''12345'' demo_user_code_sent demo_rt)))
       = [demo_user_code_sent\<lparr>priv_telegramPuppet := Some 7, phoneCodeHash := None\<rparr>]
   \<and> signIn env_signIn_fails 7 ''+15550100'' ''c0de'' ''12345'' 1
       = (Inl (Printable ''[400] PHONE_CODE_INVALID''), 2)
   \<and> result_of (signInToTelegram env_signIn_fails ''12345'' demo_user_code_sent demo_rt)
       = Inl (Printable ''[400] PHONE_CODE_INVALID'')
   \<and> phoneCodeHash (user_of (signInToTelegram env_signIn_fails ''12345'' demo_user_code_sent demo_rt))
       = Some ''c0de''
   \<and> persisted (calls (rt_of (signInToTelegram env_signIn_fails ''12345'' demo_user_code_sent
        demo_rt))) = []"
proof -
  let ?s1 = "\<lparr>world = 1, calls = [CallFromSubentry ''@user:example.org'' None], timers = []\<rparr> :: nat rt"
  have n: "phoneNumber demo_user_code_sent = Some ''+15550100''"
    and h: "phoneCodeHash demo_user_code_sent = Some ''c0de''"
    by (simp_all add: demo_user_code_sent_def demo_user_def)
  have g: "telegramPuppet demo_env demo_user_code_sent demo_rt
       = (7, demo_user_code_sent\<lparr>priv_telegramPuppet := Some 7\<rparr>, ?s1)"
    by (simp add: telegramPuppet_def demo_user_code_sent_def demo_user_def demo_rt_def demo_env_def
        invoke_def)
  have g': "telegramPuppet env_signIn_fails demo_user_code_sent demo_rt
       = (7, demo_user_code_sent\<lparr>priv_telegramPuppet := Some 7\<rparr>, ?s1)"
    by (simp add: telegramPuppet_def demo_user_code_sent_def demo_user_def demo_rt_def demo_env_def
        env_signIn_fails_def invoke_def)
  have c: "signIn demo_env 7 ''+15550100'' ''c0de'' ''12345'' (world ?s1) = (Inr ''authorization'', 2)"
    by (simp add: demo_env_def)
  have c': "signIn env_signIn_fails 7 ''+15550100'' ''c0de'' ''12345'' (world ?s1)
           = (Inl (Printable ''[400] PHONE_CODE_INVALID''), 2)"
    by (simp add: env_signIn_fails_def)
  have put: "\<And>x w. fst (putUser demo_env x w) = Inr ()"
    by (simp add: demo_env_def)
  have returned:
    "result_of (signInToTelegram demo_env ''12345'' demo_user_code_sent demo_rt) = Inr ''authorization''
     \<and> phoneCodeHash (user_of (signInToTelegram demo_env ''12345'' demo_user_code_sent demo_rt)) = None
     \<and> persisted (calls (rt_of (signInToTelegram demo_env ''12345'' demo_user_code_sent demo_rt)))
         = [demo_user_code_sent\<lparr>priv_telegramPuppet := Some 7, phoneCodeHash := None\<rparr>]"
    using signInToTelegram_outcomes [OF n _ h _ g c]
    by (simp add: put demo_rt_def)
  have thrown:
    "result_of (signInToTelegram env_signIn_fails ''12345'' demo_user_code_sent demo_rt)
       = Inl (Printable ''[400] PHONE_CODE_INVALID'')
     \<and> phoneCodeHash (user_of (signInToTelegram env_signIn_fails ''12345'' demo_user_code_sent demo_rt))
         = Some ''c0de''
     \<and> persisted (calls (rt_of (signInToTelegram env_signIn_fails ''12345'' demo_user_code_sent
          demo_rt))) = []"
    using signInToTelegram_outcomes [OF n _ h _ g' c']
    by (simp add: demo_rt_def h)
  show ?thesis
    using n h g c c' returned thrown by simp
qed

text \<open>
  Claim C4 as stated fails when the remote sign-in throws: the hash is still set and
  nothing was persisted.
\<close>

theorem signInToTelegram_failure_counterexample:
  "phoneNumber demo_user_code_sent = Some ''+15550100''
   \<and> phoneCodeHash demo_user_code_sent = Some ''c0de''
   \<and> result_of (signInToTelegram env_signIn_fails ''12345'' demo_user_code_sent demo_rt)
       = Inl (Printable ''[400] PHONE_CODE_INVALID'')
   \<and> phoneCodeHash (user_of (signInToTelegram env_signIn_fails ''12345'' demo_user_code_sent demo_rt))
       \<noteq> None
   \<and> persisted (calls (rt_of (signInToTelegram env_signIn_fails ''12345'' demo_user_code_sent demo_rt)))
       = []"
  by (simp add: signInToTelegram_def env_signIn_fails_def demo_env_def demo_user_code_sent_def
      demo_user_def demo_rt_def telegramPuppet_def invoke_def result_of_def user_of_def rt_of_def)

subsection \<open>logOutFromTelegram\<close>

text \<open>
  Claim C7, as amended. For every user, authenticated or not, \<^verbatim>\<open>logOutFromTelegram\<close>
  makes \<^verbatim>\<open>_telegramPuppet\<close> and \<^verbatim>\<open>puppetData\<close> absent, hands the user in that state
  to \<^verbatim>\<open>putUser\<close> and returns true (or throws what \<^verbatim>\<open>putUser\<close> threw); it leaves
  \<^verbatim>\<open>userID\<close>, \<^verbatim>\<open>whitelisted\<close>, \<^verbatim>\<open>commandStatus\<close>, \<^verbatim>\<open>contacts\<close> and also
  the handshake fields \<^verbatim>\<open>phoneNumber\<close> and \<^verbatim>\<open>phoneCodeHash\<close> unchanged.
\<close>

theorem logOutFromTelegram_effect:
  assumes "telegramPuppet env u s = (p, u1, s1)"
      and "puppet_logOut env p (world s1) = (dropped, w)"
  shows "user_of (logOutFromTelegram env u s) = u\<lparr>priv_telegramPuppet := None, puppetData := None\<rparr>
       \<and> priv_telegramPuppet (user_of (logOutFromTelegram env u s)) = None
       \<and> puppetData (user_of (logOutFromTelegram env u s)) = None
       \<and> userID (user_of (logOutFromTelegram env u s)) = userID u
       \<and> whitelisted (user_of (logOutFromTelegram env u s)) = whitelisted u
       \<and> commandStatus (user_of (logOutFromTelegram env u s)) = commandStatus u
       \<and> contacts (user_of (logOutFromTelegram env u s)) = contacts u
       \<and> phoneNumber (user_of (logOutFromTelegram env u s)) = phoneNumber u
       \<and> phoneCodeHash (user_of (logOutFromTelegram env u s)) = phoneCodeHash u
       \<and> persisted (calls (rt_of (logOutFromTelegram env u s)))
           = persisted (calls s) @ [u\<lparr>priv_telegramPuppet := None, puppetData := None\<rparr>]
       \<and> result_of (logOutFromTelegram env u s)
           = (case fst (putUser env (u\<lparr>priv_telegramPuppet := None, puppetData := None\<rparr>) w) of
                Inl e \<Rightarrow> Inl e
              | Inr saved \<Rightarrow> Inr True)"
proof -
  have u1: "u1 = u\<lparr>priv_telegramPuppet := Some p\<rparr>"
    and p1: "persisted (calls s1) = persisted (calls s)"
    using telegramPuppet_result [OF assms(1)] by simp_all
  have call: "invoke (CallLogOut p) (puppet_logOut env p) s1
      = (dropped, s1\<lparr>world := w, calls := calls s1 @ [CallLogOut p]\<rparr>)"
    using assms(2) by (simp add: invoke_def)
  obtain r' w' where put: "putUser env (u\<lparr>priv_telegramPuppet := None, puppetData := None\<rparr>) w = (r', w')"
    by (cases "putUser env (u\<lparr>priv_telegramPuppet := None, puppetData := None\<rparr>) w")
  have sv: "save env (u\<lparr>priv_telegramPuppet := None, puppetData := None\<rparr>)
          (s1\<lparr>world := w, calls := calls s1 @ [CallLogOut p]\<rparr>)
        = (r', s1\<lparr>world := w', calls := calls s1 @ [CallLogOut p]
               @ [CallPutUser (u\<lparr>priv_telegramPuppet := None, puppetData := None\<rparr>)]\<rparr>)"
    using put by (simp add: save_def invoke_def)
  show ?thesis
    using assms(1) call u1 p1 put sv
    by (cases r')
      (simp_all add: logOutFromTelegram_def result_of_def user_of_def rt_of_def persisted_append
        Let_def)
qed

theorem logOutFromTelegram_effect_witness:
  "telegramPuppet demo_env demo_user_code_sent demo_rt
       = (7, demo_user_code_sent\<lparr>priv_telegramPuppet := Some 7\<rparr>,
          \<lparr>world = 1, calls = [CallFromSubentry ''@user:example.org'' None], timers = []\<rparr>)
   \<and> puppet_logOut demo_env 7 1 = (Inr (), 2)
   \<and> result_of (logOutFromTelegram demo_env demo_user_code_sent demo_rt) = Inr True
   \<and> user_of (logOutFromTelegram demo_env demo_user_code_sent demo_rt) = demo_user_code_sent
   \<and> persisted (calls (rt_of (logOutFromTelegram demo_env demo_user_code_sent demo_rt)))
       = [demo_user_code_sent]"
proof -
  have g: "telegramPuppet demo_env demo_user_code_sent demo_rt
       = (7, demo_user_code_sent\<lparr>priv_telegramPuppet := Some 7\<rparr>,
          \<lparr>world = 1, calls = [CallFromSubentry ''@user:example.org'' None], timers = []\<rparr>)"
    by (simp add: telegramPuppet_def demo_user_code_sent_def demo_user_def demo_rt_def demo_env_def
        invoke_def)
  have c: "puppet_logOut demo_env 7
             (world \<lparr>world = 1, calls = [CallFromSubentry ''@user:example.org'' None], timers = []\<rparr>)
           = (Inr (), 2)"
    by (simp add: demo_env_def)
  have same: "demo_user_code_sent\<lparr>priv_telegramPuppet := None, puppetData := None\<rparr>
      = demo_user_code_sent"
    by (simp add: demo_user_code_sent_def demo_user_def)
  have put: "fst (putUser demo_env demo_user_code_sent 2) = Inr ()"
    by (simp add: demo_env_def)
  show ?thesis
    using logOutFromTelegram_effect [OF g c] g c put
    by (simp add: same demo_rt_def)
qed

text \<open>
  Claim C7 as stated fails on the handshake fields: a user who logs out after a code was
  sent keeps \<^verbatim>\<open>phoneNumber\<close> and \<^verbatim>\<open>phoneCodeHash\<close>.
\<close>

theorem logOutFromTelegram_handshake_counterexample:
  "\<not> (phoneNumber (user_of (logOutFromTelegram demo_env demo_user_code_sent demo_rt)) = None
      \<and> phoneCodeHash (user_of (logOutFromTelegram demo_env demo_user_code_sent demo_rt)) = None)"
  by (simp add: logOutFromTelegram_def demo_env_def demo_user_code_sent_def
      demo_user_def demo_rt_def telegramPuppet_def invoke_def save_def user_of_def Let_def)

subsection \<open>Errors of the send-code step\<close>




subsection \<open>syncContacts\<close>






subsection \<open>syncDialogs: skipped conversations\<close>

lemma syncDialogs_loop_fields:
  assumes "getPortalByPeer env' = getPortalByPeer env"
      and "portal_updateInfo env' = portal_updateInfo env"
      and "createMatrixRoom env' = createMatrixRoom env"
  shows "syncDialogs_loop env' p uid createRooms ds changed s
       = syncDialogs_loop env p uid createRooms ds changed s"
proof (induction ds arbitrary: changed s createRooms)
  case Nil
  show ?case by simp
next
  case (Cons d ds)
  show ?case
    by (simp add: assms Cons.IH Let_def split: prod.splits sum.splits)
qed

lemma syncDialogs_loop_filter:
  "syncDialogs_loop env p uid createRooms (filter (\<lambda>d. \<not> skipped d) ds) changed s
     = syncDialogs_loop env p uid createRooms ds changed s"
proof (induction ds arbitrary: changed s createRooms)
  case Nil
  show ?case by simp
next
  case (Cons d ds)
  show ?case
    by (simp add: Cons.IH Let_def split: prod.splits sum.splits)
qed

text \<open>
  Claim C6. For every answer to messages.getDialogs, \<^verbatim>\<open>syncDialogs\<close> does exactly
  what it does when the conversations with the tag chatForbidden or a truthy
  \<^verbatim>\<open>deactivated\<close> are taken out of the answer: the same returned flag or thrown value,
  the same user, the same world and the same call log. So no peer is built, no portal is
  looked up or updated and no room is created for such a conversation, and it adds
  nothing to the changed flag. The loop passes over a skipped conversation with the flag
  and the state as they were.
\<close>

theorem syncDialogs_skips:
  "syncDialogs (without_skipped env) createRooms u s = syncDialogs env createRooms u s
   \<and> syncDialogs_loop env p uid createRooms (filter (\<lambda>d. \<not> skipped d) ds) changed s'
       = syncDialogs_loop env p uid createRooms ds changed s'
   \<and> (skipped d \<longrightarrow>
         syncDialogs_loop env p uid createRooms (d # ds) changed s'
           = syncDialogs_loop env p uid createRooms ds changed s')"
proof -
  have loop: "syncDialogs_loop (without_skipped env) q uid' createRooms ds' c t
       = syncDialogs_loop env q uid' createRooms ds' c t" for q uid' ds' c t
    by (rule syncDialogs_loop_fields) (simp_all add: without_skipped_def)
  have getter: "telegramPuppet (without_skipped env) u s = telegramPuppet env u s"
    by (simp add: telegramPuppet_def without_skipped_def split: option.splits)
  obtain q u1 s1 where g: "telegramPuppet env u s = (q, u1, s1)"
    by (cases "telegramPuppet env u s")
  obtain r w where fetch: "client_getDialogs env q (world s1) = (r, w)"
    by (cases "client_getDialogs env q (world s1)")
  have fetch': "client_getDialogs (without_skipped env) q (world s1)
      = (case r of
           Inl e \<Rightarrow> (Inl e, w)
         | Inr dialogs \<Rightarrow> (Inr (dialogs\<lparr>chats := filter (\<lambda>d. \<not> skipped d) (chats dialogs)\<rparr>), w))"
    using fetch by (simp add: without_skipped_def split: sum.splits)
  have top: "syncDialogs (without_skipped env) createRooms u s = syncDialogs env createRooms u s"
    unfolding syncDialogs_def getter g
    by (cases r) (simp_all add: invoke_def fetch fetch' loop syncDialogs_loop_filter)
  show ?thesis
    using top by (simp add: syncDialogs_loop_filter)
qed

theorem syncDialogs_skips_witness:
  "skipped \<lparr>dialog_tag = ''chatForbidden'', dialog_id = 11, deactivated = False\<rparr>
   \<and> skipped \<lparr>dialog_tag = ''chat'', dialog_id = 12, deactivated = True\<rparr>
   \<and> filter (\<lambda>d. \<not> skipped d) demo_dialogs
       = [\<lparr>dialog_tag = ''chat'', dialog_id = 10, deactivated = False\<rparr>,
          \<lparr>dialog_tag = ''channel'', dialog_id = 13, deactivated = False\<rparr>]
   \<and> syncDialogs (without_skipped demo_env) True demo_user demo_rt
       = (Inr True, demo_user\<lparr>priv_telegramPuppet := Some 7\<rparr>,
       \<lparr>world = 8,
        calls = [CallFromSubentry ''@user:example.org'' None, CallGetDialogs 7,
          NewTelegramPeer (TelegramPeer ''chat'' 10),
          CallGetPortalByPeer (TelegramPeer ''chat'' 10),
          CallPortalUpdateInfo 7 10 \<lparr>dialog_tag = ''chat'', dialog_id = 10, deactivated = False\<rparr>,
          CallCreateMatrixRoom 7 10 [''@user:example.org''],
          NewTelegramPeer (TelegramPeer ''channel'' 13),
          CallGetPortalByPeer (TelegramPeer ''channel'' 13),
          CallPortalUpdateInfo 7 13 \<lparr>dialog_tag = ''channel'', dialog_id = 13, deactivated = False\<rparr>,
          CallCreateMatrixRoom 7 13 [''@user:example.org'']],
        timers = []\<rparr>)
   \<and> syncDialogs_loop demo_env 7 ''@user:example.org'' True
         [\<lparr>dialog_tag = ''chatForbidden'', dialog_id = 11, deactivated = False\<rparr>,
          \<lparr>dialog_tag = ''chat'', dialog_id = 12, deactivated = True\<rparr>] False demo_rt
       = (Inr False, demo_rt)"
proof -
  have run: "syncDialogs demo_env True demo_user demo_rt
    = (Inr True, demo_user\<lparr>priv_telegramPuppet := Some 7\<rparr>,
       \<lparr>world = 8,
        calls = [CallFromSubentry ''@user:example.org'' None, CallGetDialogs 7,
          NewTelegramPeer (TelegramPeer ''chat'' 10),
          CallGetPortalByPeer (TelegramPeer ''chat'' 10),
          CallPortalUpdateInfo 7 10 \<lparr>dialog_tag = ''chat'', dialog_id = 10, deactivated = False\<rparr>,
          CallCreateMatrixRoom 7 10 [''@user:example.org''],
          NewTelegramPeer (TelegramPeer ''channel'' 13),
          CallGetPortalByPeer (TelegramPeer ''channel'' 13),
          CallPortalUpdateInfo 7 13 \<lparr>dialog_tag = ''channel'', dialog_id = 13, deactivated = False\<rparr>,
          CallCreateMatrixRoom 7 13 [''@user:example.org'']],
        timers = []\<rparr>)"
    by (simp add: syncDialogs_def telegramPuppet_def invoke_def record_call_def
        demo_env_def demo_user_def demo_rt_def demo_dialogs_def skipped_def Let_def)
  have s1: "skipped \<lparr>dialog_tag = ''chatForbidden'', dialog_id = 11, deactivated = False\<rparr>"
    and s2: "skipped \<lparr>dialog_tag = ''chat'', dialog_id = 12, deactivated = True\<rparr>"
    by (simp_all add: skipped_def)
  have kept: "filter (\<lambda>d. \<not> skipped d) demo_dialogs
       = [\<lparr>dialog_tag = ''chat'', dialog_id = 10, deactivated = False\<rparr>,
          \<lparr>dialog_tag = ''channel'', dialog_id = 13, deactivated = False\<rparr>]"
    by (simp add: demo_dialogs_def skipped_def)
  have none: "syncDialogs_loop demo_env 7 ''@user:example.org'' True
         [\<lparr>dialog_tag = ''chatForbidden'', dialog_id = 11, deactivated = False\<rparr>,
          \<lparr>dialog_tag = ''chat'', dialog_id = 12, deactivated = True\<rparr>] False demo_rt
       = (Inr False, demo_rt)"
    using syncDialogs_skips
      [where env = demo_env and p = 7 and uid = "''@user:example.org''" and createRooms = True
         and d = "\<lparr>dialog_tag = ''chatForbidden'', dialog_id = 11, deactivated = False\<rparr>"
         and ds = "[\<lparr>dialog_tag = ''chat'', dialog_id = 12, deactivated = True\<rparr>]"
         and changed = False and s' = demo_rt]
      s1 s2
    by simp
  show ?thesis
    using syncDialogs_skips [of demo_env True demo_user demo_rt] s1 s2 kept none
    by (simp add: run)
qed

subsection \<open>syncDialogs: a room creation that fails\<close>









end
